theory Spec2Isabelle
  imports Main "HOL-Library.Word"
begin

section \<open>The data model of server.go\<close>

text \<open>
  The identifiers of the file system interface are unsigned 64-bit integers; user and
  group identifiers, open flags and mode bits are unsigned 32-bit integers. The
  conversions of the handler between the wire types and these types
  (\<^verbatim>\<open>InodeID(typed.Header.Node)\<close>, \<^verbatim>\<open>uint64(resp.Generation)\<close>,
  \<^verbatim>\<open>DirOffset(typed.Offset)\<close>, ...) are conversions between integer types of the same
  width: they keep the bits, so the model has the same word on both sides.
\<close>

type_synonym InodeID = "64 word"
type_synonym HandleID = "64 word"
type_synonym DirOffset = "64 word"
type_synonym GenerationNumber = "64 word"

text \<open>
  A \<^verbatim>\<open>time.Time\<close> is an instant, counted here in nanoseconds from a fixed origin.
  A \<^verbatim>\<open>time.Duration\<close> is a signed 64-bit count of nanoseconds, held as the integer it
  denotes. \<^verbatim>\<open>t.Sub(u)\<close> of the Go library is the difference of the two instants, and
  the largest (smallest) duration when the difference is above (below) what a duration
  can hold.
\<close>

type_synonym time = int
type_synonym Duration = int

definition minDuration :: Duration where
  "minDuration = - (2 ^ 63)"

definition maxDuration :: Duration where
  "maxDuration = 2 ^ 63 - 1"

definition Sub :: "time \<Rightarrow> time \<Rightarrow> Duration" where
  "Sub t u =
     (let d = t - u
      in if d < minDuration then minDuration
         else if maxDuration < d then maxDuration
         else d)"

definition Second :: Duration where
  "Second = 1000000000"

text \<open>
  Go errors. \<^verbatim>\<open>io.EOF\<close> and \<^verbatim>\<open>ENOSYS\<close> are the two error values the server names;
  every other error is a value with a message. \<^verbatim>\<open>fmt.Errorf\<close> builds such a value
  from the message of the error it is given.
\<close>

datatype error = EOF | ENOSYS | errorString string

fun Error :: "error \<Rightarrow> string" where
  "Error EOF = ''EOF''"
| "Error ENOSYS = ''function not implemented''"
| "Error (errorString m) = m"

text \<open>The wire side: the request header and the request kinds of the transport.\<close>

record Header =
  ID :: "64 word"
  Node :: "64 word"
  Uid :: "32 word"
  Gid :: "32 word"
  Pid :: "32 word"

text \<open>
  \<^verbatim>\<open>bazilfuse.Request\<close> is an interface; the handler switches on the dynamic type of the
  request. The six kinds it names carry the fields it reads; every other kind of the
  transport is \<open>bazilfuse_OtherRequest\<close>, with the name of its type.
  \<open>bazilfuse_OpenRequest h dir flags\<close>,
  \<open>bazilfuse_ReadRequest h dir handle offset size\<close>.
\<close>

datatype bazilfuse_Request =
    bazilfuse_InitRequest Header
  | bazilfuse_StatfsRequest Header
  | bazilfuse_LookupRequest Header string
  | bazilfuse_GetattrRequest Header
  | bazilfuse_OpenRequest Header bool "32 word"
  | bazilfuse_ReadRequest Header bool "64 word" "64 word" int
  | bazilfuse_OtherRequest string Header

text \<open>The attributes the wire reply carries (the fields \<^verbatim>\<open>convertAttributes\<close> sets).\<close>

record bazilfuse_Attr =
  attr_Inode :: "64 word"
  attr_Size :: "64 word"
  attr_Mode :: "32 word"
  attr_Atime :: time
  attr_Mtime :: time
  attr_Crtime :: time
  attr_Uid :: "32 word"
  attr_Gid :: "32 word"

record bazilfuse_LookupResponse =
  lookup_Node :: "64 word"
  lookup_Generation :: "64 word"
  lookup_Attr :: bazilfuse_Attr
  lookup_AttrValid :: Duration
  lookup_EntryValid :: Duration

record bazilfuse_GetattrResponse =
  getattr_Attr :: bazilfuse_Attr
  getattr_AttrValid :: Duration

datatype bazilfuse_Response =
    InitResponse_wire
  | StatfsResponse_wire
  | LookupResponse_wire bazilfuse_LookupResponse
  | GetattrResponse_wire bazilfuse_GetattrResponse
  | OpenResponse_wire "64 word"
  | ReadResponse_wire "8 word list"

text \<open>The file system side: the requests and responses of the \<^verbatim>\<open>FileSystem\<close> interface.\<close>

record InodeAttributes =
  Size :: "64 word"
  Mode :: "32 word"
  Atime :: time
  Mtime :: time
  Crtime :: time
  owner_Uid :: "32 word"
  owner_Gid :: "32 word"

record InitRequest =
  init_Uid :: "32 word"
  init_Gid :: "32 word"

record LookUpInodeRequest =
  Parent :: InodeID
  Name :: string

record LookUpInodeResponse =
  Child :: InodeID
  Generation :: GenerationNumber
  Attributes :: InodeAttributes
  AttributesExpiration :: time
  EntryExpiration :: time

record GetInodeAttributesRequest =
  getattr_Inode :: InodeID

record GetInodeAttributesResponse =
  getattr_Attributes :: InodeAttributes
  getattr_AttributesExpiration :: time

record OpenDirRequest =
  opendir_Inode :: InodeID
  opendir_Flags :: "32 word"

record OpenDirResponse =
  opendir_Handle :: HandleID

record ReadDirRequest =
  readdir_Inode :: InodeID
  readdir_Handle :: HandleID
  readdir_Offset :: DirOffset
  readdir_Size :: int

record ReadDirResponse =
  Data :: "8 word list"

text \<open>
  A method of the file system returns a pointer to a response and an error, either of
  which may be nil: a pair of options. It may change the state of the world \<open>'w\<close> it runs
  in (its own tables, the time that passes while it runs), so it is a function from the
  world before the call to the result and the world after. The clock is read in the same
  world.
\<close>

type_synonym ('a, 'w) fs_method = "'w \<Rightarrow> ('a option \<times> error option) \<times> 'w"

record 'w FileSystem =
  Init :: "InitRequest \<Rightarrow> (unit, 'w) fs_method"
  LookUpInode :: "LookUpInodeRequest \<Rightarrow> (LookUpInodeResponse, 'w) fs_method"
  GetInodeAttributes :: "GetInodeAttributesRequest \<Rightarrow> (GetInodeAttributesResponse, 'w) fs_method"
  OpenDir :: "OpenDirRequest \<Rightarrow> (OpenDirResponse, 'w) fs_method"
  ReadDir :: "ReadDirRequest \<Rightarrow> (ReadDirResponse, 'w) fs_method"

record 'w server =
  clock_Now :: "'w \<Rightarrow> time \<times> 'w"
  fs :: "'w FileSystem"

text \<open>
  What the handler does to its collaborators, in the order it does it: the lines it
  hands to the logger, the methods of the file system it calls, the clock readings it
  takes, the reply it sends on the request, and a panic (a nil response dereferenced),
  which ends the process.
\<close>

datatype log_arg =
    Str string
  | Req bazilfuse_Request
  | Err error
  | Resp bazilfuse_Response

datatype fs_call =
    Call_Init InitRequest
  | Call_LookUpInode LookUpInodeRequest
  | Call_GetInodeAttributes GetInodeAttributesRequest
  | Call_OpenDir OpenDirRequest
  | Call_ReadDir ReadDirRequest

datatype event =
    Println "log_arg list"
  | Print "log_arg list"
  | Called fs_call
  | Now time
  | Respond bazilfuse_Response
  | RespondError error
  | Panic

section \<open>convertAttributes and handleFuseRequest\<close>

definition convertAttributes :: "InodeID \<Rightarrow> InodeAttributes \<Rightarrow> bazilfuse_Attr" where
  "convertAttributes inode attr =
     \<lparr>attr_Inode = inode,
      attr_Size = Size attr,
      attr_Mode = Mode attr,
      attr_Atime = Atime attr,
      attr_Mtime = Mtime attr,
      attr_Crtime = Crtime attr,
      attr_Uid = owner_Uid attr,
      attr_Gid = owner_Gid attr\<rparr>"

text \<open>
  The arms of the type switch. Each returns the events of the arm in order and the world
  it leaves. An arm looks at the error first, and reads the response only when the error
  is nil. The fields of a composite literal are evaluated left to right: in the lookup
  arm \<^verbatim>\<open>resp.Child\<close> is read first (a nil \<^verbatim>\<open>resp\<close> panics there), then the clock is
  read for \<^verbatim>\<open>AttrValid\<close>, then again for \<^verbatim>\<open>EntryValid\<close>.
\<close>

fun handleTyped :: "'w server \<Rightarrow> bazilfuse_Request \<Rightarrow> 'w \<Rightarrow> event list \<times> 'w" where
  "handleTyped s (bazilfuse_InitRequest h) w =
     (let req = \<lparr>init_Uid = Uid h, init_Gid = Gid h\<rparr>
      in case Init (fs s) req w of ((resp, err), w1) \<Rightarrow>
         (case err of
            Some e \<Rightarrow>
              ([Called (Call_Init req), Print [Str ''Responding:'', Err e], RespondError e], w1)
          | None \<Rightarrow>
              (let fuseResp = InitResponse_wire
               in ([Called (Call_Init req), Print [Str ''Responding:'', Resp fuseResp],
                    Respond fuseResp], w1))))"
| "handleTyped s (bazilfuse_StatfsRequest h) w =
     (let fuseResp = StatfsResponse_wire
      in ([Println [Str ''Responding:'', Resp fuseResp], Respond fuseResp], w))"
| "handleTyped s (bazilfuse_LookupRequest h name) w =
     (let req = \<lparr>Parent = Node h, Name = name\<rparr>
      in case LookUpInode (fs s) req w of ((resp, err), w1) \<Rightarrow>
         (case err of
            Some e \<Rightarrow>
              ([Called (Call_LookUpInode req), Print [Str ''Responding:'', Err e],
                RespondError e], w1)
          | None \<Rightarrow>
              (case resp of
                 None \<Rightarrow> ([Called (Call_LookUpInode req), Panic], w1)
               | Some r \<Rightarrow>
                   (case clock_Now s w1 of (t1, w2) \<Rightarrow>
                    case clock_Now s w2 of (t2, w3) \<Rightarrow>
                      (let fuseResp = LookupResponse_wire
                             \<lparr>lookup_Node = Child r,
                              lookup_Generation = Generation r,
                              lookup_Attr = convertAttributes (Child r) (Attributes r),
                              lookup_AttrValid = Sub (AttributesExpiration r) t1,
                              lookup_EntryValid = Sub (EntryExpiration r) t2\<rparr>
                       in ([Called (Call_LookUpInode req), Now t1, Now t2,
                            Print [Str ''Responding:'', Resp fuseResp],
                            Respond fuseResp], w3))))))"
| "handleTyped s (bazilfuse_GetattrRequest h) w =
     (let req = \<lparr>getattr_Inode = Node h\<rparr>
      in case GetInodeAttributes (fs s) req w of ((resp, err), w1) \<Rightarrow>
         (case err of
            Some e \<Rightarrow>
              ([Called (Call_GetInodeAttributes req), Print [Str ''Responding:'', Err e],
                RespondError e], w1)
          | None \<Rightarrow>
              (case resp of
                 None \<Rightarrow> ([Called (Call_GetInodeAttributes req), Panic], w1)
               | Some r \<Rightarrow>
                   (case clock_Now s w1 of (t1, w2) \<Rightarrow>
                      (let fuseResp = GetattrResponse_wire
                             \<lparr>getattr_Attr =
                                convertAttributes (getattr_Inode req) (getattr_Attributes r),
                              getattr_AttrValid = Sub (getattr_AttributesExpiration r) t1\<rparr>
                       in ([Called (Call_GetInodeAttributes req), Now t1,
                            Print [Str ''Responding:'', Resp fuseResp],
                            Respond fuseResp], w2))))))"
| "handleTyped s (bazilfuse_OpenRequest h dir flags) w =
     (if \<not> dir then
        ([Println [Str ''We don't yet support files. Returning ENOSYS.''],
          RespondError ENOSYS], w)
      else
        (let req = \<lparr>opendir_Inode = Node h, opendir_Flags = flags\<rparr>
         in case OpenDir (fs s) req w of ((resp, err), w1) \<Rightarrow>
            (case err of
               Some e \<Rightarrow>
                 ([Called (Call_OpenDir req), Print [Str ''Responding:'', Err e],
                   RespondError e], w1)
             | None \<Rightarrow>
                 (case resp of
                    None \<Rightarrow> ([Called (Call_OpenDir req), Panic], w1)
                  | Some r \<Rightarrow>
                      (let fuseResp = OpenResponse_wire (opendir_Handle r)
                       in ([Called (Call_OpenDir req),
                            Print [Str ''Responding:'', Resp fuseResp],
                            Respond fuseResp], w1))))))"
| "handleTyped s (bazilfuse_ReadRequest h dir handle offset sz) w =
     (if \<not> dir then
        ([Println [Str ''We don't yet support files. Returning ENOSYS.''],
          RespondError ENOSYS], w)
      else
        (let req = \<lparr>readdir_Inode = Node h, readdir_Handle = handle,
                    readdir_Offset = offset, readdir_Size = sz\<rparr>
         in case ReadDir (fs s) req w of ((resp, err), w1) \<Rightarrow>
            (case err of
               Some e \<Rightarrow>
                 ([Called (Call_ReadDir req), Print [Str ''Responding:'', Err e],
                   RespondError e], w1)
             | None \<Rightarrow>
                 (case resp of
                    None \<Rightarrow> ([Called (Call_ReadDir req), Panic], w1)
                  | Some r \<Rightarrow>
                      (let fuseResp = ReadResponse_wire (Data r)
                       in ([Called (Call_ReadDir req),
                            Print [Str ''Responding:'', Resp fuseResp],
                            Respond fuseResp], w1))))))"
| "handleTyped s (bazilfuse_OtherRequest kind h) w =
     ([Println [Str ''Unhandled type. Returning ENOSYS.''], RespondError ENOSYS], w)"

text \<open>The handler logs the request, then runs the arm of its kind.\<close>

definition handleFuseRequest :: "'w server \<Rightarrow> bazilfuse_Request \<Rightarrow> 'w \<Rightarrow> event list \<times> 'w" where
  "handleFuseRequest s fuseReq w =
     (case handleTyped s fuseReq w of
        (evs, w') \<Rightarrow> (Println [Str ''Received:'', Req fuseReq] # evs, w'))"

section \<open>Serve\<close>

text \<open>
  \<^verbatim>\<open>c.ReadRequest()\<close> returns a request and an error. The connection is the list of the
  results its successive reads will give; a read on a connection with nothing more to
  give blocks, and the loop never returns: the result \<open>Blocked\<close>. \<^verbatim>\<open>go\<close> starts the
  handler of a request and does not wait for it, so what the loop itself does is spawn one
  handler per request read, in the order read, and return. \<open>Serve\<close> gives the requests
  whose handlers it has spawned, in spawn order, and how the loop ended.
\<close>

type_synonym read_result = "bazilfuse_Request option \<times> error option"

datatype serve_result = Returned "error option" | Blocked

fun Serve :: "read_result list \<Rightarrow> bazilfuse_Request option list \<times> serve_result" where
  "Serve [] = ([], Blocked)"
| "Serve ((fuseReq, err) # c) =
     (if err = Some EOF then ([], Returned None)
      else case err of
             Some e \<Rightarrow> ([], Returned (Some (errorString (''Conn.ReadRequest: '' @ Error e))))
           | None \<Rightarrow> (case Serve c of (spawned, r) \<Rightarrow> (fuseReq # spawned, r)))"

section \<open>Reading a trace\<close>

fun is_reply :: "event \<Rightarrow> bool" where
  "is_reply (Respond r) = True"
| "is_reply (RespondError e) = True"
| "is_reply ev = False"

fun is_call :: "event \<Rightarrow> bool" where
  "is_call (Called c) = True"
| "is_call ev = False"

fun is_clock_reading :: "event \<Rightarrow> bool" where
  "is_clock_reading (Now t) = True"
| "is_clock_reading ev = False"

fun is_log :: "event \<Rightarrow> bool" where
  "is_log (Println l) = True"
| "is_log (Print l) = True"
| "is_log ev = False"

section \<open>A clock and a file system to run the handler on\<close>

text \<open>
  The world is the current time, in nanoseconds. A reading of \<open>fakeClock step\<close> gives the
  time and takes \<open>step\<close> nanoseconds. Every method of \<open>fakeFS latency\<close> takes \<open>latency\<close>
  nanoseconds. The file system has a root directory, inode 1, with one entry \<open>foo\<close>,
  inode 2; what it returns expires five seconds after the call was made. It refuses to
  serve user 0.
\<close>

definition fakeClock :: "int \<Rightarrow> int \<Rightarrow> time \<times> int" where
  "fakeClock step w = (w, w + step)"

definition fakeAttributes :: InodeAttributes where
  "fakeAttributes =
     \<lparr>Size = 4096, Mode = 493, Atime = 10, Mtime = 20, Crtime = 30,
      owner_Uid = 1000, owner_Gid = 100\<rparr>"

definition fakeFS :: "int \<Rightarrow> int FileSystem" where
  "fakeFS latency =
     \<lparr>Init = (\<lambda>req w.
        (if init_Uid req = 0 then (None, Some (errorString ''permission denied''))
         else (Some (), None),
         w + latency)),
      LookUpInode = (\<lambda>req w.
        (if Parent req = 1 \<and> Name req = ''foo'' then
           (Some \<lparr>Child = 2, Generation = 1, Attributes = fakeAttributes,
                  AttributesExpiration = w + 5 * Second,
                  EntryExpiration = w + 5 * Second\<rparr>, None)
         else (None, Some (errorString ''no such file or directory'')),
         w + latency)),
      GetInodeAttributes = (\<lambda>req w.
        (if getattr_Inode req = 1 \<or> getattr_Inode req = 2 then
           (Some \<lparr>getattr_Attributes = fakeAttributes,
                  getattr_AttributesExpiration = w + 5 * Second\<rparr>, None)
         else (None, Some (errorString ''no such file or directory'')),
         w + latency)),
      OpenDir = (\<lambda>req w.
        (if opendir_Inode req = 1 then (Some \<lparr>opendir_Handle = 7\<rparr>, None)
         else (None, Some (errorString ''not a directory'')),
         w + latency)),
      ReadDir = (\<lambda>req w.
        (if readdir_Handle req = 7 then (Some \<lparr>Data = [102, 111, 111]\<rparr>, None)
         else (None, Some (errorString ''input/output error'')),
         w + latency))\<rparr>"

definition fakeServer :: "int \<Rightarrow> int \<Rightarrow> int server" where
  "fakeServer step latency = \<lparr>clock_Now = fakeClock step, fs = fakeFS latency\<rparr>"

definition fakeHeader :: "64 word \<Rightarrow> Header" where
  "fakeHeader node = \<lparr>ID = 1, Node = node, Uid = 1000, Gid = 100, Pid = 4242\<rparr>"




section \<open>The arms of the handler, outcome by outcome\<close>

lemma Sub_clamp: "Sub t u = max minDuration (min maxDuration (t - u))"
  by (simp add: Sub_def Let_def minDuration_def maxDuration_def max_def min_def)

lemma Sub_in_range:
  "minDuration \<le> t - u \<Longrightarrow> t - u \<le> maxDuration \<Longrightarrow> Sub t u = t - u"
  by (simp add: Sub_def Let_def)

lemma Sub_negative: "t < u \<Longrightarrow> Sub t u < 0"
  by (simp add: Sub_def Let_def minDuration_def maxDuration_def)

lemma handle_lookup_success:
  assumes "LookUpInode (fs s) \<lparr>Parent = Node h, Name = name\<rparr> w = ((Some resp, None), w1)"
    and "clock_Now s w1 = (t1, w2)"
    and "clock_Now s w2 = (t2, w3)"
  shows "handleFuseRequest s (bazilfuse_LookupRequest h name) w =
     ([Println [Str ''Received:'', Req (bazilfuse_LookupRequest h name)],
       Called (Call_LookUpInode \<lparr>Parent = Node h, Name = name\<rparr>),
       Now t1,
       Now t2,
       Print [Str ''Responding:'', Resp (LookupResponse_wire
          \<lparr>lookup_Node = Child resp,
           lookup_Generation = Generation resp,
           lookup_Attr = convertAttributes (Child resp) (Attributes resp),
           lookup_AttrValid = Sub (AttributesExpiration resp) t1,
           lookup_EntryValid = Sub (EntryExpiration resp) t2\<rparr>)],
       Respond (LookupResponse_wire
          \<lparr>lookup_Node = Child resp,
           lookup_Generation = Generation resp,
           lookup_Attr = convertAttributes (Child resp) (Attributes resp),
           lookup_AttrValid = Sub (AttributesExpiration resp) t1,
           lookup_EntryValid = Sub (EntryExpiration resp) t2\<rparr>)], w3)"
  using assms by (simp add: handleFuseRequest_def Let_def)

lemma handle_getattr_success:
  assumes "GetInodeAttributes (fs s) \<lparr>getattr_Inode = Node h\<rparr> w = ((Some resp, None), w1)"
    and "clock_Now s w1 = (t1, w2)"
  shows "handleFuseRequest s (bazilfuse_GetattrRequest h) w =
     ([Println [Str ''Received:'', Req (bazilfuse_GetattrRequest h)],
       Called (Call_GetInodeAttributes \<lparr>getattr_Inode = Node h\<rparr>),
       Now t1,
       Print [Str ''Responding:'', Resp (GetattrResponse_wire
          \<lparr>getattr_Attr = convertAttributes (Node h) (getattr_Attributes resp),
           getattr_AttrValid = Sub (getattr_AttributesExpiration resp) t1\<rparr>)],
       Respond (GetattrResponse_wire
          \<lparr>getattr_Attr = convertAttributes (Node h) (getattr_Attributes resp),
           getattr_AttrValid = Sub (getattr_AttributesExpiration resp) t1\<rparr>)], w2)"
  using assms by (simp add: handleFuseRequest_def Let_def)

lemma handle_nil_response_panics:
  assumes "LookUpInode (fs s) \<lparr>Parent = Node h, Name = name\<rparr> w = ((None, None), w1)"
  shows "handleFuseRequest s (bazilfuse_LookupRequest h name) w =
     ([Println [Str ''Received:'', Req (bazilfuse_LookupRequest h name)],
       Called (Call_LookUpInode \<lparr>Parent = Node h, Name = name\<rparr>),
       Panic], w1)"
  using assms by (simp add: handleFuseRequest_def Let_def)

lemma fake_lookup_foo:
  "LookUpInode (fs (fakeServer step latency)) \<lparr>Parent = Node (fakeHeader 1), Name = ''foo''\<rparr> w =
     ((Some \<lparr>Child = 2, Generation = 1, Attributes = fakeAttributes,
             AttributesExpiration = w + 5 * Second,
             EntryExpiration = w + 5 * Second\<rparr>, None), w + latency)"
  by (simp add: fakeServer_def fakeFS_def fakeHeader_def)

lemma fake_getattr_root:
  "GetInodeAttributes (fs (fakeServer step latency)) \<lparr>getattr_Inode = Node (fakeHeader 1)\<rparr> w =
     ((Some \<lparr>getattr_Attributes = fakeAttributes,
             getattr_AttributesExpiration = w + 5 * Second\<rparr>, None), w + latency)"
  by (simp add: fakeServer_def fakeFS_def fakeHeader_def)

lemma fake_clock: "clock_Now (fakeServer step latency) w = (w, w + step)"
  by (simp add: fakeServer_def fakeClock_def)


lemma Serve_blocks_without_error:
  "Serve (map (\<lambda>q. (q, None)) reqs) = (reqs, Blocked)"
  by (induction reqs) simp_all

section \<open>The claims\<close>




text \<open>
  Claim C2, as amended. The validity durations of a successful reply are the difference
  between the expiration and the clock reading, kept within the bounds of a duration and
  not floored at zero: when the expiration is earlier than the reading, the duration in
  the reply is negative.
\<close>

theorem validity_duration_clamped_difference:
  "(LookUpInode (fs s) \<lparr>Parent = Node h, Name = name\<rparr> w = ((Some resp, None), w1) \<and>
    clock_Now s w1 = (t1, w2) \<and> clock_Now s w2 = (t2, w3) \<longrightarrow>
      (\<exists>r. filter is_reply (fst (handleFuseRequest s (bazilfuse_LookupRequest h name) w)) =
             [Respond (LookupResponse_wire r)] \<and>
           lookup_AttrValid r =
             max minDuration (min maxDuration (AttributesExpiration resp - t1)) \<and>
           lookup_EntryValid r =
             max minDuration (min maxDuration (EntryExpiration resp - t2)) \<and>
           (AttributesExpiration resp < t1 \<longrightarrow> lookup_AttrValid r < 0) \<and>
           (EntryExpiration resp < t2 \<longrightarrow> lookup_EntryValid r < 0))) \<and>
   (GetInodeAttributes (fs s) \<lparr>getattr_Inode = Node h\<rparr> w = ((Some resp', None), w1) \<and>
    clock_Now s w1 = (t1, w2) \<longrightarrow>
      (\<exists>r. filter is_reply (fst (handleFuseRequest s (bazilfuse_GetattrRequest h) w)) =
             [Respond (GetattrResponse_wire r)] \<and>
           getattr_AttrValid r =
             max minDuration (min maxDuration (getattr_AttributesExpiration resp' - t1)) \<and>
           (getattr_AttributesExpiration resp' < t1 \<longrightarrow> getattr_AttrValid r < 0)))"
proof (intro conjI impI)
  assume a: "LookUpInode (fs s) \<lparr>Parent = Node h, Name = name\<rparr> w = ((Some resp, None), w1) \<and>
    clock_Now s w1 = (t1, w2) \<and> clock_Now s w2 = (t2, w3)"
  then have "handleFuseRequest s (bazilfuse_LookupRequest h name) w =
     ([Println [Str ''Received:'', Req (bazilfuse_LookupRequest h name)],
       Called (Call_LookUpInode \<lparr>Parent = Node h, Name = name\<rparr>),
       Now t1,
       Now t2,
       Print [Str ''Responding:'', Resp (LookupResponse_wire
          \<lparr>lookup_Node = Child resp,
           lookup_Generation = Generation resp,
           lookup_Attr = convertAttributes (Child resp) (Attributes resp),
           lookup_AttrValid = Sub (AttributesExpiration resp) t1,
           lookup_EntryValid = Sub (EntryExpiration resp) t2\<rparr>)],
       Respond (LookupResponse_wire
          \<lparr>lookup_Node = Child resp,
           lookup_Generation = Generation resp,
           lookup_Attr = convertAttributes (Child resp) (Attributes resp),
           lookup_AttrValid = Sub (AttributesExpiration resp) t1,
           lookup_EntryValid = Sub (EntryExpiration resp) t2\<rparr>)], w3)"
    using handle_lookup_success [of s h name w resp w1 t1 w2 t2 w3] by simp
  then show "\<exists>r. filter is_reply (fst (handleFuseRequest s (bazilfuse_LookupRequest h name) w)) =
             [Respond (LookupResponse_wire r)] \<and>
           lookup_AttrValid r =
             max minDuration (min maxDuration (AttributesExpiration resp - t1)) \<and>
           lookup_EntryValid r =
             max minDuration (min maxDuration (EntryExpiration resp - t2)) \<and>
           (AttributesExpiration resp < t1 \<longrightarrow> lookup_AttrValid r < 0) \<and>
           (EntryExpiration resp < t2 \<longrightarrow> lookup_EntryValid r < 0)"
    by (simp add: Sub_clamp [symmetric] Sub_negative)
next
  assume a: "GetInodeAttributes (fs s) \<lparr>getattr_Inode = Node h\<rparr> w = ((Some resp', None), w1) \<and>
    clock_Now s w1 = (t1, w2)"
  then have "handleFuseRequest s (bazilfuse_GetattrRequest h) w =
     ([Println [Str ''Received:'', Req (bazilfuse_GetattrRequest h)],
       Called (Call_GetInodeAttributes \<lparr>getattr_Inode = Node h\<rparr>),
       Now t1,
       Print [Str ''Responding:'', Resp (GetattrResponse_wire
          \<lparr>getattr_Attr = convertAttributes (Node h) (getattr_Attributes resp'),
           getattr_AttrValid = Sub (getattr_AttributesExpiration resp') t1\<rparr>)],
       Respond (GetattrResponse_wire
          \<lparr>getattr_Attr = convertAttributes (Node h) (getattr_Attributes resp'),
           getattr_AttrValid = Sub (getattr_AttributesExpiration resp') t1\<rparr>)], w2)"
    using handle_getattr_success [of s h w resp' w1 t1 w2] by simp
  then show "\<exists>r. filter is_reply (fst (handleFuseRequest s (bazilfuse_GetattrRequest h) w)) =
             [Respond (GetattrResponse_wire r)] \<and>
           getattr_AttrValid r =
             max minDuration (min maxDuration (getattr_AttributesExpiration resp' - t1)) \<and>
           (getattr_AttributesExpiration resp' < t1 \<longrightarrow> getattr_AttrValid r < 0)"
    by (simp add: Sub_clamp [symmetric] Sub_negative)
qed

theorem validity_duration_clamped_difference_witness:
  "(\<exists>r. filter is_reply (fst (handleFuseRequest (fakeServer 1 (7 * Second))
            (bazilfuse_LookupRequest (fakeHeader 1) ''foo'') 0)) =
          [Respond (LookupResponse_wire r)] \<and>
        lookup_AttrValid r = - 2000000000 \<and> lookup_EntryValid r = - 2000000001) \<and>
   (\<exists>r. filter is_reply (fst (handleFuseRequest (fakeServer 1 (2 * Second))
            (bazilfuse_GetattrRequest (fakeHeader 1)) 0)) =
          [Respond (GetattrResponse_wire r)] \<and>
        getattr_AttrValid r = 3000000000)"
  using validity_duration_clamped_difference [where s = "fakeServer 1 (7 * Second)"
          and h = "fakeHeader 1" and name = "''foo''" and w = 0 and ?w1.0 = "7 * Second"
          and ?t1.0 = "7 * Second" and ?w2.0 = "7 * Second + 1" and ?t2.0 = "7 * Second + 1"
          and ?w3.0 = "7 * Second + 2"
          and resp = "\<lparr>Child = 2, Generation = 1, Attributes = fakeAttributes,
             AttributesExpiration = 5 * Second, EntryExpiration = 5 * Second\<rparr>",
          THEN conjunct1]
        validity_duration_clamped_difference [where s = "fakeServer 1 (2 * Second)"
          and h = "fakeHeader 1" and w = 0 and ?w1.0 = "2 * Second"
          and ?t1.0 = "2 * Second" and ?w2.0 = "2 * Second + 1"
          and resp' = "\<lparr>getattr_Attributes = fakeAttributes,
             getattr_AttributesExpiration = 5 * Second\<rparr>",
          THEN conjunct2]
  by (auto simp: fake_lookup_foo fake_getattr_root fake_clock Second_def
        minDuration_def maxDuration_def)

text \<open>
  The claim as the specification states it (a duration floored at zero) fails: the file
  system answers a request made at time 0 after seven seconds with attributes that expire
  at five seconds, and the reply carries minus two seconds.
\<close>

theorem getattr_expired_duration_negative:
  "GetInodeAttributes (fs (fakeServer 0 (7 * Second)))
       \<lparr>getattr_Inode = Node (fakeHeader 1)\<rparr> 0 =
     ((Some \<lparr>getattr_Attributes = fakeAttributes,
             getattr_AttributesExpiration = 5000000000\<rparr>, None), 7000000000) \<and>
   clock_Now (fakeServer 0 (7 * Second)) 7000000000 = (7000000000, 7000000000) \<and>
   filter is_reply (fst (handleFuseRequest (fakeServer 0 (7 * Second))
       (bazilfuse_GetattrRequest (fakeHeader 1)) 0)) =
     [Respond (GetattrResponse_wire
        \<lparr>getattr_Attr = convertAttributes 1 fakeAttributes,
         getattr_AttrValid = - 2000000000\<rparr>)]"
  by (simp add: handleFuseRequest_def fakeServer_def fakeFS_def fakeHeader_def fakeClock_def
        Let_def Sub_def Second_def minDuration_def maxDuration_def)

text \<open>
  Claim C3. After a successful \<open>LookUpInode\<close> or \<open>GetInodeAttributes\<close>, the clock is read
  in the world the call of the file system has left (\<open>w1\<close>), after that call in the
  trace, and not in the world the request arrived in (\<open>w\<close>); the validity durations are
  the expirations minus these readings.
\<close>

theorem validity_reads_clock_after_provider:
  "(LookUpInode (fs s) \<lparr>Parent = Node h, Name = name\<rparr> w = ((Some resp, None), w1) \<longrightarrow>
      (\<exists>r w'. handleFuseRequest s (bazilfuse_LookupRequest h name) w =
           ([Println [Str ''Received:'', Req (bazilfuse_LookupRequest h name)],
             Called (Call_LookUpInode \<lparr>Parent = Node h, Name = name\<rparr>),
             Now (fst (clock_Now s w1)),
             Now (fst (clock_Now s (snd (clock_Now s w1)))),
             Print [Str ''Responding:'', Resp (LookupResponse_wire r)],
             Respond (LookupResponse_wire r)], w') \<and>
         lookup_AttrValid r = Sub (AttributesExpiration resp) (fst (clock_Now s w1)) \<and>
         lookup_EntryValid r =
           Sub (EntryExpiration resp) (fst (clock_Now s (snd (clock_Now s w1)))))) \<and>
   (GetInodeAttributes (fs s) \<lparr>getattr_Inode = Node h\<rparr> w = ((Some resp', None), w1) \<longrightarrow>
      (\<exists>r w'. handleFuseRequest s (bazilfuse_GetattrRequest h) w =
           ([Println [Str ''Received:'', Req (bazilfuse_GetattrRequest h)],
             Called (Call_GetInodeAttributes \<lparr>getattr_Inode = Node h\<rparr>),
             Now (fst (clock_Now s w1)),
             Print [Str ''Responding:'', Resp (GetattrResponse_wire r)],
             Respond (GetattrResponse_wire r)], w') \<and>
         getattr_AttrValid r =
           Sub (getattr_AttributesExpiration resp') (fst (clock_Now s w1))))"
proof (intro conjI impI)
  assume a: "LookUpInode (fs s) \<lparr>Parent = Node h, Name = name\<rparr> w = ((Some resp, None), w1)"
  obtain t1 w2 where c1: "clock_Now s w1 = (t1, w2)"
    by (cases "clock_Now s w1")
  obtain t2 w3 where c2: "clock_Now s w2 = (t2, w3)"
    by (cases "clock_Now s w2")
  show "\<exists>r w'. handleFuseRequest s (bazilfuse_LookupRequest h name) w =
           ([Println [Str ''Received:'', Req (bazilfuse_LookupRequest h name)],
             Called (Call_LookUpInode \<lparr>Parent = Node h, Name = name\<rparr>),
             Now (fst (clock_Now s w1)),
             Now (fst (clock_Now s (snd (clock_Now s w1)))),
             Print [Str ''Responding:'', Resp (LookupResponse_wire r)],
             Respond (LookupResponse_wire r)], w') \<and>
         lookup_AttrValid r = Sub (AttributesExpiration resp) (fst (clock_Now s w1)) \<and>
         lookup_EntryValid r =
           Sub (EntryExpiration resp) (fst (clock_Now s (snd (clock_Now s w1))))"
    using handle_lookup_success [OF a c1 c2] c1 c2 by simp
next
  assume a: "GetInodeAttributes (fs s) \<lparr>getattr_Inode = Node h\<rparr> w = ((Some resp', None), w1)"
  obtain t1 w2 where c1: "clock_Now s w1 = (t1, w2)"
    by (cases "clock_Now s w1")
  show "\<exists>r w'. handleFuseRequest s (bazilfuse_GetattrRequest h) w =
           ([Println [Str ''Received:'', Req (bazilfuse_GetattrRequest h)],
             Called (Call_GetInodeAttributes \<lparr>getattr_Inode = Node h\<rparr>),
             Now (fst (clock_Now s w1)),
             Print [Str ''Responding:'', Resp (GetattrResponse_wire r)],
             Respond (GetattrResponse_wire r)], w') \<and>
         getattr_AttrValid r =
           Sub (getattr_AttributesExpiration resp') (fst (clock_Now s w1))"
    using handle_getattr_success [OF a c1] c1 by simp
qed

text \<open>
  The example of the specification: the request arrives at \<open>T0 = 100\<close>, the file system
  takes two seconds and returns attributes that expire at \<open>T0\<close> plus five seconds; the
  clock is read at \<open>T0\<close> plus two seconds and the duration is three seconds, not five.
\<close>

theorem validity_reads_clock_after_provider_witness:
  "LookUpInode (fs (fakeServer 0 (2 * Second)))
       \<lparr>Parent = Node (fakeHeader 1), Name = ''foo''\<rparr> 100 =
     ((Some \<lparr>Child = 2, Generation = 1, Attributes = fakeAttributes,
             AttributesExpiration = 100 + 5 * Second,
             EntryExpiration = 100 + 5 * Second\<rparr>, None), 100 + 2 * Second) \<and>
   (\<exists>r w'. handleFuseRequest (fakeServer 0 (2 * Second))
              (bazilfuse_LookupRequest (fakeHeader 1) ''foo'') 100 =
           ([Println [Str ''Received:'', Req (bazilfuse_LookupRequest (fakeHeader 1) ''foo'')],
             Called (Call_LookUpInode \<lparr>Parent = Node (fakeHeader 1), Name = ''foo''\<rparr>),
             Now (100 + 2 * Second),
             Now (100 + 2 * Second),
             Print [Str ''Responding:'', Resp (LookupResponse_wire r)],
             Respond (LookupResponse_wire r)], w') \<and>
         lookup_AttrValid r = 3 * Second \<and> lookup_AttrValid r \<noteq> 5 * Second) \<and>
   GetInodeAttributes (fs (fakeServer 0 (2 * Second)))
       \<lparr>getattr_Inode = Node (fakeHeader 1)\<rparr> 100 =
     ((Some \<lparr>getattr_Attributes = fakeAttributes,
             getattr_AttributesExpiration = 100 + 5 * Second\<rparr>, None), 100 + 2 * Second) \<and>
   (\<exists>r w'. handleFuseRequest (fakeServer 0 (2 * Second))
              (bazilfuse_GetattrRequest (fakeHeader 1)) 100 =
           ([Println [Str ''Received:'', Req (bazilfuse_GetattrRequest (fakeHeader 1))],
             Called (Call_GetInodeAttributes \<lparr>getattr_Inode = Node (fakeHeader 1)\<rparr>),
             Now (100 + 2 * Second),
             Print [Str ''Responding:'', Resp (GetattrResponse_wire r)],
             Respond (GetattrResponse_wire r)], w') \<and>
         getattr_AttrValid r = 3 * Second \<and> getattr_AttrValid r \<noteq> 5 * Second)"
  using validity_reads_clock_after_provider [where s = "fakeServer 0 (2 * Second)"
          and h = "fakeHeader 1" and name = "''foo''" and w = 100
          and ?w1.0 = "100 + 2 * Second"
          and resp = "\<lparr>Child = 2, Generation = 1, Attributes = fakeAttributes,
             AttributesExpiration = 100 + 5 * Second, EntryExpiration = 100 + 5 * Second\<rparr>"
          and resp' = "\<lparr>getattr_Attributes = fakeAttributes,
             getattr_AttributesExpiration = 100 + 5 * Second\<rparr>"]
  by (auto simp: fake_lookup_foo fake_getattr_root fake_clock Sub_def Let_def Second_def
        minDuration_def maxDuration_def)

text \<open>
  Claim C4. An \<open>Open\<close> or a \<open>Read\<close> request whose directory flag is unset is answered with
  \<open>ENOSYS\<close>; the handler logs, replies and returns, and no method of the file system is
  called: the trace has no call and the world is as it was.
\<close>

theorem open_read_of_file_not_supported:
  "handleFuseRequest s (bazilfuse_OpenRequest h False flags) w =
     ([Println [Str ''Received:'', Req (bazilfuse_OpenRequest h False flags)],
       Println [Str ''We don't yet support files. Returning ENOSYS.''],
       RespondError ENOSYS], w) \<and>
   filter is_call (fst (handleFuseRequest s (bazilfuse_OpenRequest h False flags) w)) = [] \<and>
   handleFuseRequest s (bazilfuse_ReadRequest h False handle offset sz) w =
     ([Println [Str ''Received:'', Req (bazilfuse_ReadRequest h False handle offset sz)],
       Println [Str ''We don't yet support files. Returning ENOSYS.''],
       RespondError ENOSYS], w) \<and>
   filter is_call
     (fst (handleFuseRequest s (bazilfuse_ReadRequest h False handle offset sz) w)) = []"
  by (simp add: handleFuseRequest_def)

text \<open>
  Claim C5. A request of a kind the handler does not name is answered with \<open>ENOSYS\<close>: the
  handler logs that the type is unhandled and replies with the error; it calls no method
  of the file system and does not panic.
\<close>

theorem unrecognized_request_not_supported:
  "handleFuseRequest s (bazilfuse_OtherRequest kind h) w =
     ([Println [Str ''Received:'', Req (bazilfuse_OtherRequest kind h)],
       Println [Str ''Unhandled type. Returning ENOSYS.''],
       RespondError ENOSYS], w) \<and>
   filter is_call (fst (handleFuseRequest s (bazilfuse_OtherRequest kind h) w)) = [] \<and>
   Panic \<notin> set (fst (handleFuseRequest s (bazilfuse_OtherRequest kind h) w))"
  by (simp add: handleFuseRequest_def)

text \<open>
  Claim C6. When a read of the connection gives \<open>EOF\<close>, \<open>Serve\<close> returns no error,
  however many requests it has read before; when a read gives any other error, \<open>Serve\<close>
  returns an error whose message is \<open>Conn.ReadRequest: \<close> followed by the message of
  that error. In both cases it has spawned the handlers of the requests read before, in
  the order read.
\<close>

theorem Serve_returns_on_read_error:
  "Serve (map (\<lambda>q. (q, None)) reqs @ (q', Some EOF) # rest) = (reqs, Returned None) \<and>
   (e \<noteq> EOF \<longrightarrow>
      Serve (map (\<lambda>q. (q, None)) reqs @ (q', Some e) # rest) =
        (reqs, Returned (Some (errorString (''Conn.ReadRequest: '' @ Error e)))))"
  by (induction reqs) simp_all

theorem Serve_returns_on_read_error_witness:
  "Serve [(Some (bazilfuse_StatfsRequest (fakeHeader 1)), None),
          (Some (bazilfuse_LookupRequest (fakeHeader 1) ''foo''), None),
          (None, Some EOF)] =
     ([Some (bazilfuse_StatfsRequest (fakeHeader 1)),
       Some (bazilfuse_LookupRequest (fakeHeader 1) ''foo'')], Returned None) \<and>
   Serve [(None, Some EOF)] = ([], Returned None) \<and>
   errorString ''input/output error'' \<noteq> EOF \<and>
   Serve [(Some (bazilfuse_StatfsRequest (fakeHeader 1)), None),
          (None, Some (errorString ''input/output error'')),
          (Some (bazilfuse_LookupRequest (fakeHeader 1) ''foo''), None)] =
     ([Some (bazilfuse_StatfsRequest (fakeHeader 1))],
      Returned (Some (errorString ''Conn.ReadRequest: input/output error'')))"
  using Serve_returns_on_read_error [of "[Some (bazilfuse_StatfsRequest (fakeHeader 1)),
            Some (bazilfuse_LookupRequest (fakeHeader 1) ''foo'')]" None "[]" EOF]
        Serve_returns_on_read_error [of "[]" None "[]" EOF]
        Serve_returns_on_read_error [of "[Some (bazilfuse_StatfsRequest (fakeHeader 1))]"
            None "[(Some (bazilfuse_LookupRequest (fakeHeader 1) ''foo''), None)]"
            "errorString ''input/output error''"]
  by simp

text \<open>
  Claim C7. When the call of the file system returns an error, the handler replies with
  that error and does nothing else: its trace is the receipt, the call, the logged error
  and the error reply, with no clock reading; the world is the one the call has left; and
  nothing in the outcome depends on the response that came with the error, so no
  response is converted.
\<close>

theorem provider_error_is_the_reply:
  "(Init (fs s) \<lparr>init_Uid = Uid h, init_Gid = Gid h\<rparr> w = ((r0, Some err), w1) \<longrightarrow>
      handleFuseRequest s (bazilfuse_InitRequest h) w =
        ([Println [Str ''Received:'', Req (bazilfuse_InitRequest h)],
          Called (Call_Init \<lparr>init_Uid = Uid h, init_Gid = Gid h\<rparr>),
          Print [Str ''Responding:'', Err err],
          RespondError err], w1)) \<and>
   (LookUpInode (fs s) \<lparr>Parent = Node h, Name = name\<rparr> w = ((r1, Some err), w1) \<longrightarrow>
      handleFuseRequest s (bazilfuse_LookupRequest h name) w =
        ([Println [Str ''Received:'', Req (bazilfuse_LookupRequest h name)],
          Called (Call_LookUpInode \<lparr>Parent = Node h, Name = name\<rparr>),
          Print [Str ''Responding:'', Err err],
          RespondError err], w1)) \<and>
   (GetInodeAttributes (fs s) \<lparr>getattr_Inode = Node h\<rparr> w = ((r2, Some err), w1) \<longrightarrow>
      handleFuseRequest s (bazilfuse_GetattrRequest h) w =
        ([Println [Str ''Received:'', Req (bazilfuse_GetattrRequest h)],
          Called (Call_GetInodeAttributes \<lparr>getattr_Inode = Node h\<rparr>),
          Print [Str ''Responding:'', Err err],
          RespondError err], w1)) \<and>
   (OpenDir (fs s) \<lparr>opendir_Inode = Node h, opendir_Flags = flags\<rparr> w =
        ((r3, Some err), w1) \<longrightarrow>
      handleFuseRequest s (bazilfuse_OpenRequest h True flags) w =
        ([Println [Str ''Received:'', Req (bazilfuse_OpenRequest h True flags)],
          Called (Call_OpenDir \<lparr>opendir_Inode = Node h, opendir_Flags = flags\<rparr>),
          Print [Str ''Responding:'', Err err],
          RespondError err], w1)) \<and>
   (ReadDir (fs s) \<lparr>readdir_Inode = Node h, readdir_Handle = handle,
                    readdir_Offset = offset, readdir_Size = sz\<rparr> w =
        ((r4, Some err), w1) \<longrightarrow>
      handleFuseRequest s (bazilfuse_ReadRequest h True handle offset sz) w =
        ([Println [Str ''Received:'', Req (bazilfuse_ReadRequest h True handle offset sz)],
          Called (Call_ReadDir \<lparr>readdir_Inode = Node h, readdir_Handle = handle,
                                 readdir_Offset = offset, readdir_Size = sz\<rparr>),
          Print [Str ''Responding:'', Err err],
          RespondError err], w1))"
  by (simp add: handleFuseRequest_def Let_def)

text \<open>
  The example of the specification, and a failure of each other method: \<open>LookUpInode\<close>
  fails for the name \<open>missing\<close> under the parent 1, \<open>Init\<close> for user 0,
  \<open>GetInodeAttributes\<close> for an inode that does not exist, \<open>OpenDir\<close> for the inode of a
  file, \<open>ReadDir\<close> for a handle that was never opened.
\<close>

theorem provider_error_is_the_reply_witness:
  "handleFuseRequest (fakeServer 1 5) (bazilfuse_LookupRequest (fakeHeader 1) ''missing'') 0 =
     ([Println [Str ''Received:'', Req (bazilfuse_LookupRequest (fakeHeader 1) ''missing'')],
       Called (Call_LookUpInode \<lparr>Parent = 1, Name = ''missing''\<rparr>),
       Print [Str ''Responding:'', Err (errorString ''no such file or directory'')],
       RespondError (errorString ''no such file or directory'')], 5) \<and>
   filter is_reply (fst (handleFuseRequest (fakeServer 1 5)
       (bazilfuse_InitRequest ((fakeHeader 1)\<lparr>Uid := 0\<rparr>)) 0)) =
     [RespondError (errorString ''permission denied'')] \<and>
   filter is_reply (fst (handleFuseRequest (fakeServer 1 5)
       (bazilfuse_GetattrRequest (fakeHeader 9)) 0)) =
     [RespondError (errorString ''no such file or directory'')] \<and>
   filter is_reply (fst (handleFuseRequest (fakeServer 1 5)
       (bazilfuse_OpenRequest (fakeHeader 2) True 0) 0)) =
     [RespondError (errorString ''not a directory'')] \<and>
   filter is_reply (fst (handleFuseRequest (fakeServer 1 5)
       (bazilfuse_ReadRequest (fakeHeader 1) True 9 0 4096) 0)) =
     [RespondError (errorString ''input/output error'')]"
  using provider_error_is_the_reply [where s = "fakeServer 1 5" and h = "fakeHeader 1"
          and name = "''missing''" and w = 0 and ?w1.0 = 5 and ?r1.0 = None
          and err = "errorString ''no such file or directory''", THEN conjunct2, THEN conjunct1]
        provider_error_is_the_reply [where s = "fakeServer 1 5"
          and h = "(fakeHeader 1)\<lparr>Uid := 0\<rparr>" and w = 0 and ?w1.0 = 5 and ?r0.0 = None
          and err = "errorString ''permission denied''", THEN conjunct1]
        provider_error_is_the_reply [where s = "fakeServer 1 5" and h = "fakeHeader 9"
          and w = 0 and ?w1.0 = 5 and ?r2.0 = None
          and err = "errorString ''no such file or directory''",
          THEN conjunct2, THEN conjunct2, THEN conjunct1]
        provider_error_is_the_reply [where s = "fakeServer 1 5" and h = "fakeHeader 2"
          and flags = 0 and w = 0 and ?w1.0 = 5 and ?r3.0 = None
          and err = "errorString ''not a directory''",
          THEN conjunct2, THEN conjunct2, THEN conjunct2, THEN conjunct1]
        provider_error_is_the_reply [where s = "fakeServer 1 5" and h = "fakeHeader 1"
          and handle = 9 and offset = 0 and sz = 4096 and w = 0 and ?w1.0 = 5 and ?r4.0 = None
          and err = "errorString ''input/output error''",
          THEN conjunct2, THEN conjunct2, THEN conjunct2, THEN conjunct2]
  by (simp add: fakeServer_def fakeFS_def fakeHeader_def)

text \<open>
  Claim C8. The reply to a successful \<open>LookUpInode\<close> has the child as its node, the
  generation, the attributes of the response copied field by field (with the child as
  the inode), and the two validity durations computed from the two clock readings.
\<close>

theorem lookup_success_reply:
  assumes "LookUpInode (fs s) \<lparr>Parent = Node h, Name = name\<rparr> w = ((Some resp, None), w1)"
    and "clock_Now s w1 = (t1, w2)"
    and "clock_Now s w2 = (t2, w3)"
  shows "filter is_reply (fst (handleFuseRequest s (bazilfuse_LookupRequest h name) w)) =
     [Respond (LookupResponse_wire
        \<lparr>lookup_Node = Child resp,
         lookup_Generation = Generation resp,
         lookup_Attr =
           \<lparr>attr_Inode = Child resp,
            attr_Size = Size (Attributes resp),
            attr_Mode = Mode (Attributes resp),
            attr_Atime = Atime (Attributes resp),
            attr_Mtime = Mtime (Attributes resp),
            attr_Crtime = Crtime (Attributes resp),
            attr_Uid = owner_Uid (Attributes resp),
            attr_Gid = owner_Gid (Attributes resp)\<rparr>,
         lookup_AttrValid = Sub (AttributesExpiration resp) t1,
         lookup_EntryValid = Sub (EntryExpiration resp) t2\<rparr>)]"
  by (simp add: handle_lookup_success [OF assms] convertAttributes_def)

theorem lookup_success_reply_witness:
  "filter is_reply (fst (handleFuseRequest (fakeServer 0 (2 * Second))
       (bazilfuse_LookupRequest (fakeHeader 1) ''foo'') 0)) =
     [Respond (LookupResponse_wire
        \<lparr>lookup_Node = 2,
         lookup_Generation = 1,
         lookup_Attr =
           \<lparr>attr_Inode = 2, attr_Size = 4096, attr_Mode = 493,
            attr_Atime = 10, attr_Mtime = 20, attr_Crtime = 30,
            attr_Uid = 1000, attr_Gid = 100\<rparr>,
         lookup_AttrValid = 3000000000,
         lookup_EntryValid = 3000000000\<rparr>)]"
  using lookup_success_reply [OF fake_lookup_foo [of 0 "2 * Second" 0] fake_clock fake_clock]
  by (simp add: fakeAttributes_def Sub_def Let_def Second_def minDuration_def maxDuration_def)

text \<open>
  Claim C10. A successful lookup reads the clock twice, one reading after the other: the
  attribute validity is measured against the first reading, the entry validity against
  the second, taken in the world the first reading has left. When the clock has advanced
  between the two, the entry validity is shorter than the first reading would have made
  it (as long as both differences fit a duration).
\<close>

theorem lookup_reads_clock_twice:
  assumes "LookUpInode (fs s) \<lparr>Parent = Node h, Name = name\<rparr> w = ((Some resp, None), w1)"
    and "clock_Now s w1 = (t1, w2)"
    and "clock_Now s w2 = (t2, w3)"
  shows "\<exists>r. filter is_clock_reading
              (fst (handleFuseRequest s (bazilfuse_LookupRequest h name) w)) =
            [Now t1, Now t2] \<and>
          filter is_reply (fst (handleFuseRequest s (bazilfuse_LookupRequest h name) w)) =
            [Respond (LookupResponse_wire r)] \<and>
          snd (handleFuseRequest s (bazilfuse_LookupRequest h name) w) = w3 \<and>
          lookup_AttrValid r = Sub (AttributesExpiration resp) t1 \<and>
          lookup_EntryValid r = Sub (EntryExpiration resp) t2 \<and>
          (t1 < t2 \<and> minDuration \<le> EntryExpiration resp - t2 \<and>
           EntryExpiration resp - t1 \<le> maxDuration \<longrightarrow>
             lookup_EntryValid r < Sub (EntryExpiration resp) t1)"
  by (simp add: handle_lookup_success [OF assms] Sub_def Let_def)

theorem lookup_reads_clock_twice_witness:
  "\<exists>r. filter is_clock_reading (fst (handleFuseRequest (fakeServer 1000 (2 * Second))
            (bazilfuse_LookupRequest (fakeHeader 1) ''foo'') 0)) =
          [Now 2000000000, Now 2000001000] \<and>
        filter is_reply (fst (handleFuseRequest (fakeServer 1000 (2 * Second))
            (bazilfuse_LookupRequest (fakeHeader 1) ''foo'') 0)) =
          [Respond (LookupResponse_wire r)] \<and>
        lookup_AttrValid r = 3000000000 \<and>
        lookup_EntryValid r = 2999999000"
  using lookup_reads_clock_twice [OF fake_lookup_foo [of 1000 "2 * Second" 0]
          fake_clock fake_clock]
  by (auto simp: Sub_def Let_def Second_def minDuration_def maxDuration_def)

end
